theory Spec2Isabelle
  imports Main
begin

section \<open>nodeca.io: remote calls over a publish/subscribe transport\<close>

text \<open>
  A model of \<^verbatim>\<open>src/assets/js/nodeca-io.js\<close>. The module keeps its state in the variables
  \<^verbatim>\<open>events\<close>, \<^verbatim>\<open>connected\<close> and \<^verbatim>\<open>api3\<close>; the Faye client (\<^verbatim>\<open>bayeux\<close>) and the timers of
  the JavaScript runtime hold the functions the module hands them. The model is one state
  record for all of it, and one function per function of the source. JavaScript runs every
  callback to completion on one thread, so each delivery (a timer firing, a transport
  signal, an inbound message, the outcome of a publish) is one step on the state.

  Functions of the caller (the callback of a call, the handlers given to \<^verbatim>\<open>io.on\<close>) are
  opaque: calling one appends the call and its arguments to the trace of the state, and
  does nothing else.
\<close>

subsection \<open>Values\<close>

datatype fn = UserFn nat | Noop

datatype jsval =
    JUndefined
  | JNull
  | JBool bool
  | JNum int
  | JStr string
  | JObj "(string \<times> jsval) list"
  | JFun fn
  | JErr jsval string

text \<open>
  \<open>UserFn n\<close> is a function of the caller, \<open>Noop\<close> is \<^verbatim>\<open>$.noop\<close>. \<open>JErr code message\<close> is an
  \<^verbatim>\<open>Error\<close> object with its \<^verbatim>\<open>message\<close> and the \<^verbatim>\<open>code\<close> property that \<^verbatim>\<open>ioerr\<close> sets.
  \<open>JNum\<close> holds the integer-valued numbers.
\<close>

fun truthy :: "jsval \<Rightarrow> bool" where
  "truthy JUndefined = False"
| "truthy JNull = False"
| "truthy (JBool b) = b"
| "truthy (JNum n) = (n \<noteq> 0)"
| "truthy (JStr s) = (s \<noteq> [])"
| "truthy (JObj ps) = True"
| "truthy (JFun f) = True"
| "truthy (JErr c m) = True"

fun isFunction :: "jsval \<Rightarrow> bool" where
  "isFunction (JFun f) = True"
| "isFunction v = False"

subsection \<open>Errors\<close>

text \<open>
  The string-valued properties of the exported object \<^verbatim>\<open>io\<close> (lines 43 to 45). Its other
  properties are the functions of the API (\<^verbatim>\<open>on\<close>, \<^verbatim>\<open>off\<close>, \<^verbatim>\<open>subscribe\<close>, \<^verbatim>\<open>unsubscribe\<close>,
  \<^verbatim>\<open>publish\<close>, \<^verbatim>\<open>apiTree\<close>, \<^verbatim>\<open>auth\<close>, \<^verbatim>\<open>init\<close>). \<open>io_get name\<close> is the expression \<^verbatim>\<open>io.name\<close>
  for the name of an error code: a property that was never assigned reads \<^verbatim>\<open>undefined\<close>.
\<close>

definition io :: "(string \<times> jsval) list" where
  "io = [(''ENOCONN'', JStr ''IO_ENOCONN''),
         (''ETIMEOUT'', JStr ''IO_ETIMEOUT''),
         (''EWRONGVER'', JStr ''IO_EWRONGVER'')]"

definition io_get :: "string \<Rightarrow> jsval" where
  "io_get name = (case map_of io name of None \<Rightarrow> JUndefined | Some v \<Rightarrow> v)"

definition ioerr :: "jsval \<Rightarrow> string \<Rightarrow> jsval" where
  "ioerr code message = JErr code message"

subsection \<open>Messages\<close>

text \<open>
  The envelope published on the request channel, \<^verbatim>\<open>{id, msg: {version, method, params}}\<close>
  (the fields of \<^verbatim>\<open>msg\<close> are written beside \<^verbatim>\<open>id\<close>), and the envelope received on the
  response channel, \<^verbatim>\<open>{id, msg: {version, err, result}}\<close>.
\<close>

record request =
  req_id :: nat
  req_version :: string
  req_method :: string
  req_params :: jsval

record message =
  version :: string
  err :: jsval
  result :: jsval

record data =
  data_id :: nat
  data_msg :: message

text \<open>The object literal \<^verbatim>\<open>{client: ..., server: ...}\<close> of line 228.\<close>

record versions =
  client :: string
  server :: string

subsection \<open>State\<close>

text \<open>
  A call that passes the connection check creates four closures over its own variables
  \<^verbatim>\<open>id\<close>, \<^verbatim>\<open>name\<close> and \<^verbatim>\<open>callback\<close>: the response handler stored in \<^verbatim>\<open>api3.callbacks\<close>,
  \<^verbatim>\<open>handle_transport_down\<close> bound to the transport, the function given to \<^verbatim>\<open>setTimeout\<close>,
  and \<^verbatim>\<open>handle_error\<close> and \<^verbatim>\<open>stop_timer\<close> given to the publication. A closure is held as
  the variables it captured.
\<close>

record call_env =
  env_id :: nat
  env_name :: string
  env_callback :: fn

datatype effect =
    Invoke fn "jsval list"
  | Published string request

text \<open>
  \<^item> \<open>events\<close>, \<open>connected\<close>, \<open>callbacks\<close>, \<open>last_msg_id\<close>, \<open>req_channel\<close>, \<open>res_channel\<close>: the
    module's variables (\<open>callbacks\<close> and the three after it are the fields of \<^verbatim>\<open>api3\<close>).
  \<^item> \<open>runtime_version\<close>: \<^verbatim>\<open>nodeca.runtime.version\<close>.
  \<^item> \<open>timers\<close>: the pending timers of the runtime. Each call sets one timer; its handle is
    identified with the call's \<^verbatim>\<open>id\<close>.
  \<^item> \<open>down_listeners\<close>: the functions \<^verbatim>\<open>handle_transport_down\<close> bound to the transport's
    \<^verbatim>\<open>transport:down\<close> signal, in the order they were bound. The two listeners that
    \<^verbatim>\<open>io.init\<close> binds are in \<open>step\<close> below.
  \<^item> \<open>publications\<close>: the publications whose outcome the transport has not reported yet,
    each with the call's \<^verbatim>\<open>handle_error\<close> as its failure callback and \<^verbatim>\<open>stop_timer\<close> as
    its success callback.
  \<^item> \<open>trace\<close>: the calls of the caller's functions and the envelopes handed to the
    transport, oldest first.
\<close>

record state =
  events :: "string \<rightharpoonup> fn list"
  connected :: bool
  callbacks :: "nat \<rightharpoonup> call_env"
  last_msg_id :: nat
  req_channel :: string
  res_channel :: string
  runtime_version :: string
  timers :: "nat \<rightharpoonup> call_env"
  down_listeners :: "call_env list"
  publications :: "nat \<rightharpoonup> call_env"
  trace :: "effect list"

text \<open>
  The state when the module has been loaded and \<^verbatim>\<open>io.init()\<close> has run, for a given
  \<^verbatim>\<open>window.REALTIME_ID\<close> and \<^verbatim>\<open>nodeca.runtime.version\<close>.
\<close>

definition init :: "string \<Rightarrow> string \<Rightarrow> state" where
  "init realtime_id ver =
     \<lparr>events = Map.empty,
      connected = False,
      callbacks = Map.empty,
      last_msg_id = 0,
      req_channel = ''/x/api3-req/'' @ realtime_id,
      res_channel = ''/x/api3-res/'' @ realtime_id,
      runtime_version = ver,
      timers = Map.empty,
      down_listeners = [],
      publications = Map.empty,
      trace = []\<rparr>"

subsection \<open>Events\<close>

definition invoke :: "fn \<Rightarrow> jsval list \<Rightarrow> state \<Rightarrow> state" where
  "invoke f args s = s\<lparr>trace := trace s @ [Invoke f args]\<rparr>"

text \<open>
  \<^verbatim>\<open>handler.apply(null, args)\<close> calls \<^verbatim>\<open>handler\<close> with the argument list that
  \<^verbatim>\<open>Function.prototype.apply\<close> builds from its second argument (ECMAScript 5.1, 15.3.4.3):
  the list has \<^verbatim>\<open>ToUint32(args.length)\<close> elements, the properties \<^verbatim>\<open>args[0]\<close>, \<^verbatim>\<open>args[1]\<close>
  and so on. The one object that the module passes to \<^verbatim>\<open>emit\<close> is the literal
  \<^verbatim>\<open>{client: ..., server: ...}\<close>: it has no \<^verbatim>\<open>length\<close>, \<^verbatim>\<open>undefined\<close> converts to 0, and the
  list is empty whatever the two versions are. (Earlier editions of the language throw a
  \<^verbatim>\<open>TypeError\<close> for an argument that is not an array; there too the handler never
  receives the object.)
\<close>

definition apply_arglist :: "versions \<Rightarrow> jsval list" where
  "apply_arglist args = []"

definition emit :: "string \<Rightarrow> versions \<Rightarrow> state \<Rightarrow> state" where
  "emit event args s =
     foldl (\<lambda>s' handler. invoke handler (apply_arglist args) s') s
       (case events s event of None \<Rightarrow> [] | Some hs \<Rightarrow> hs)"

text \<open>
  \<open>events s\<close> holds the own properties of the object \<^verbatim>\<open>events\<close>. The object starts as \<^verbatim>\<open>{}\<close>
  and inherits the properties of \<^verbatim>\<open>Object.prototype\<close> (ECMAScript 5.1, 15.2.4, and the
  legacy accessors of the browsers' engines): for such a name \<^verbatim>\<open>events[event]\<close> reads the
  inherited value unless an own property hides it.
\<close>

definition Object_prototype :: "string list" where
  "Object_prototype =
     [''constructor'', ''toString'', ''toLocaleString'', ''valueOf'', ''hasOwnProperty'',
      ''isPrototypeOf'', ''propertyIsEnumerable'', ''__proto__'', ''__defineGetter__'',
      ''__defineSetter__'', ''__lookupGetter__'', ''__lookupSetter__'']"

datatype error = TypeError

text \<open>
  \<^verbatim>\<open>io.on\<close> (lines 81 to 87). For an inherited name with no own property, \<^verbatim>\<open>!events[event]\<close> is
  false (the inherited value is a function or an object), no list is created, and
  \<^verbatim>\<open>events[event].push\<close> is \<^verbatim>\<open>undefined\<close>: the call throws and registers nothing.
\<close>

definition on :: "string \<Rightarrow> fn \<Rightarrow> state \<Rightarrow> error + state" where
  "on event handler s =
     (case events s event of
        Some hs \<Rightarrow> Inr (s\<lparr>events := (events s)(event \<mapsto> hs @ [handler])\<rparr>)
      | None \<Rightarrow>
          if event \<in> set Object_prototype then Inl TypeError
          else Inr (s\<lparr>events := (events s)(event \<mapsto> [] @ [handler])\<rparr>))"

text \<open>
  \<^verbatim>\<open>io.off\<close> (lines 102 to 104). \<^verbatim>\<open>_.without(list, handler)\<close> is the list without the elements
  equal to \<^verbatim>\<open>handler\<close>, and the empty list when \<^verbatim>\<open>list\<close> is \<^verbatim>\<open>undefined\<close>. The event names
  given to \<^verbatim>\<open>io.off\<close> are names that \<^verbatim>\<open>events\<close> does not inherit: for an inherited name
  \<^verbatim>\<open>_.without\<close> would get the inherited function, and what it makes of one is the library's
  affair.
\<close>

definition off :: "string \<Rightarrow> fn option \<Rightarrow> state \<Rightarrow> state" where
  "off event handler s =
     s\<lparr>events := (events s)(event \<mapsto>
         (case handler of
            None \<Rightarrow> []
          | Some h \<Rightarrow> removeAll h (case events s event of None \<Rightarrow> [] | Some hs \<Rightarrow> hs)))\<rparr>"

subsection \<open>The closures of a call\<close>

text \<open>
  \<^verbatim>\<open>clearTimeout\<close> removes the timer from the pending ones and does nothing for a handle
  that has fired or was cleared, or for \<^verbatim>\<open>null\<close>; the assignment \<^verbatim>\<open>timeout = null\<close> changes
  nothing else, since \<^verbatim>\<open>timeout\<close> is read by \<^verbatim>\<open>clearTimeout\<close> only.
\<close>

definition stop_timer :: "call_env \<Rightarrow> state \<Rightarrow> state" where
  "stop_timer env s = s\<lparr>timers := (timers s)(env_id env := None)\<rparr>"

definition handle_error :: "call_env \<Rightarrow> jsval \<Rightarrow> state \<Rightarrow> state" where
  "handle_error env e s =
     (let s1 = stop_timer env s;
          s2 = s1\<lparr>callbacks := (callbacks s1)(env_id env := None)\<rparr>
      in invoke (env_callback env) [e] s2)"

definition handle_transport_down :: "call_env \<Rightarrow> state \<Rightarrow> state" where
  "handle_transport_down env s =
     handle_error env (ioerr (io_get ''ECONNGONE'') ''Server gone. (RT)'') s"

text \<open>The function stored in \<^verbatim>\<open>api3.callbacks[id]\<close> (lines 221 to 238). \<^verbatim>\<open>unbind\<close> removes
  the listener from the transport's list.\<close>

definition response_handler :: "call_env \<Rightarrow> message \<Rightarrow> state \<Rightarrow> state" where
  "response_handler env msg s =
     (let s1 = stop_timer env s;
          s2 = s1\<lparr>down_listeners := removeAll env (down_listeners s1)\<rparr>
      in if version msg \<noteq> runtime_version s2
         then
           (let s3 = emit ''api3:version-mismatch''
                       \<lparr>client = runtime_version s2, server = version msg\<rparr> s2
            in invoke (env_callback env)
                 [ioerr (io_get ''EWRONGVER'') ''Client version does not match server.''] s3)
         else invoke (env_callback env) [err msg, result msg] s2)"

text \<open>The function given to \<^verbatim>\<open>setTimeout\<close> (lines 241 to 243).\<close>

definition timeout_fn :: "call_env \<Rightarrow> state \<Rightarrow> state" where
  "timeout_fn env s =
     handle_error env
       (ioerr (io_get ''ETIMEOUT'') (''Timeout '' @ env_name env @ '' execution.'')) s"

subsection \<open>\<^verbatim>\<open>io.apiTree\<close>\<close>

text \<open>
  \<^verbatim>\<open>api3.last_msg_id\<close> is a JavaScript number (a double) that holds an integer, and
  \<^verbatim>\<open>api3.last_msg_id++\<close> stores the double nearest to that integer plus one. Below \<open>2 ^ 53\<close>
  the sum is exact. From there to \<open>2 ^ 54\<close> the doubles are the even integers and the sum
  lies half way between two of them: it is rounded to the one whose significand is even.
  Above, the sum is rounded back to the number itself. So the counter, which starts at 0,
  reaches \<open>2 ^ 53\<close> and stays there.
\<close>

definition max_safe :: nat where
  "max_safe = 2 ^ 53"

definition js_succ :: "nat \<Rightarrow> nat" where
  "js_succ n =
     (if n < max_safe then n + 1
      else if n < 2 * max_safe \<and> odd (n div 2) then n + 2
      else n)"

text \<open>
  The arguments after \<^verbatim>\<open>params\<close>: \<open>options\<close> is any value, \<open>callback\<close> is a function or is
  left out (\<open>None\<close>). \<open>resolve_args\<close> is lines 166 to 174.
\<close>

definition resolve_args :: "jsval \<Rightarrow> fn option \<Rightarrow> jsval \<times> fn" where
  "resolve_args options callback =
     (let (options1, callback1) =
            (case options of
               JFun f \<Rightarrow> (JObj [], Some f)
             | _ \<Rightarrow> (options, callback));
          options2 = (if truthy options1 then options1 else JObj []);
          callback2 = (case callback1 of None \<Rightarrow> Noop | Some f \<Rightarrow> f)
      in (options2, callback2))"

definition apiTree :: "string \<Rightarrow> jsval \<Rightarrow> jsval \<Rightarrow> fn option \<Rightarrow> state \<Rightarrow> state" where
  "apiTree name params options callback s =
     (let id1 = last_msg_id s;
          s1 = s\<lparr>last_msg_id := js_succ (last_msg_id s)\<rparr>;
          (options', callback') = resolve_args options callback
      in if \<not> connected s1
         then invoke callback' [ioerr (io_get ''ENOCONN'') ''Cannot connect to server (RT).''] s1
         else
           (let msg = \<lparr>req_id = id1, req_version = runtime_version s1,
                       req_method = name, req_params = params\<rparr>;
                env = \<lparr>env_id = id1, env_name = name, env_callback = callback'\<rparr>;
                s2 = s1\<lparr>down_listeners := down_listeners s1 @ [env]\<rparr>;
                s3 = s2\<lparr>callbacks := (callbacks s2)(id1 \<mapsto> env)\<rparr>;
                s4 = s3\<lparr>timers := (timers s3)(id1 \<mapsto> env)\<rparr>;
                s5 = s4\<lparr>trace := trace s4 @ [Published (req_channel s4) msg]\<rparr>
            in s5\<lparr>publications := (publications s5)(id1 \<mapsto> env)\<rparr>))"

subsection \<open>What \<^verbatim>\<open>io.init\<close> subscribes and binds\<close>

text \<open>The two listeners of lines 274 and 275.\<close>

definition transport_up :: "state \<Rightarrow> state" where
  "transport_up s = s\<lparr>connected := True\<rparr>"

definition transport_down :: "state \<Rightarrow> state" where
  "transport_down s = s\<lparr>connected := False\<rparr>"

text \<open>The function subscribed to the response channel (lines 277 to 287).\<close>

definition on_response :: "data \<Rightarrow> state \<Rightarrow> state" where
  "on_response d s =
     (case callbacks s (data_id d) of
        None \<Rightarrow> s
      | Some env \<Rightarrow>
          response_handler env (data_msg d)
            (s\<lparr>callbacks := (callbacks s)(data_id d := None)\<rparr>))"

subsection \<open>Steps\<close>

text \<open>
  What can happen to the module: a call of its API, and a delivery by the transport or
  the runtime.
  \<^item> \<open>On event handler\<close>, \<open>Off event handler\<close>: calls of \<^verbatim>\<open>io.on\<close> and \<^verbatim>\<open>io.off\<close>. A call that
    throws leaves the state as it was; the error goes to the caller.
  \<^item> \<open>TransportUp\<close>, \<open>TransportDown\<close>: the transport's signals. The transport calls the
    listeners bound to the signal in the order they were bound: the one of \<^verbatim>\<open>io.init\<close>
    first, then for \<^verbatim>\<open>transport:down\<close> the \<^verbatim>\<open>handle_transport_down\<close> of every call that
    is still bound.
  \<^item> \<open>Response d\<close>: the envelope \<open>d\<close> arrives on the response channel.
  \<^item> \<open>TimerElapsed k\<close>: 30000 ms have passed since call \<open>k\<close> set its timer. The runtime
    calls the timer's function if the timer is still pending, and a timer fires once.
  \<^item> \<open>PublishDone k\<close>, \<open>PublishFail k e\<close>: the transport reports the outcome of the
    publication of call \<open>k\<close>, success or the failure \<open>e\<close>; a publication has one outcome.
\<close>

datatype event =
    ApiTree string jsval jsval "fn option"
  | On string fn
  | Off string "fn option"
  | TransportUp
  | TransportDown
  | Response data
  | TimerElapsed nat
  | PublishDone nat
  | PublishFail nat jsval

fun step :: "event \<Rightarrow> state \<Rightarrow> state" where
  "step (ApiTree name params options callback) s = apiTree name params options callback s"
| "step (On event handler) s =
     (case on event handler s of Inl e \<Rightarrow> s | Inr s' \<Rightarrow> s')"
| "step (Off event handler) s = off event handler s"
| "step TransportUp s = transport_up s"
| "step TransportDown s =
     foldl (\<lambda>s' env. handle_transport_down env s') (transport_down s) (down_listeners s)"
| "step (Response d) s = on_response d s"
| "step (TimerElapsed k) s =
     (case timers s k of
        None \<Rightarrow> s
      | Some env \<Rightarrow> timeout_fn env (s\<lparr>timers := (timers s)(k := None)\<rparr>))"
| "step (PublishDone k) s =
     (case publications s k of
        None \<Rightarrow> s
      | Some env \<Rightarrow> stop_timer env (s\<lparr>publications := (publications s)(k := None)\<rparr>))"
| "step (PublishFail k e) s =
     (case publications s k of
        None \<Rightarrow> s
      | Some env \<Rightarrow> handle_error env e (s\<lparr>publications := (publications s)(k := None)\<rparr>))"

definition run :: "event list \<Rightarrow> state \<Rightarrow> state" where
  "run evs s = foldl (\<lambda>s' e. step e s') s evs"

subsection \<open>Request identifiers\<close>

text \<open>
  \<open>published_ids tr\<close> lists the \<^verbatim>\<open>id\<close> fields of the envelopes that the trace \<open>tr\<close> shows
  handed to the transport, oldest first.
\<close>

fun is_call :: "event \<Rightarrow> bool" where
  "is_call (ApiTree name params options callback) = True"
| "is_call e = False"

fun published_ids :: "effect list \<Rightarrow> nat list" where
  "published_ids [] = []"
| "published_ids (Published channel r # tr) = req_id r # published_ids tr"
| "published_ids (Invoke f args # tr) = published_ids tr"

section \<open>Properties\<close>

subsection \<open>Lemmas\<close>

lemmas run_defs = run_def init_def apiTree_def resolve_args_def invoke_def transport_up_def
  transport_down_def handle_transport_down_def handle_error_def stop_timer_def timeout_fn_def
  ioerr_def io_get_def io_def on_response_def response_handler_def emit_def apply_arglist_def
  on_def off_def Object_prototype_def js_succ_def max_safe_def Let_def

lemma invoke_fold:
  "foldl (\<lambda>s' h. invoke h a s') s hs = s\<lparr>trace := trace s @ map (\<lambda>h. Invoke h a) hs\<rparr>"
  by (induction hs arbitrary: s) (simp_all add: invoke_def)

lemma emit_eq:
  "emit event args s =
     s\<lparr>trace := trace s @ map (\<lambda>h. Invoke h (apply_arglist args))
                   (case events s event of None \<Rightarrow> [] | Some hs \<Rightarrow> hs)\<rparr>"
  by (simp add: emit_def invoke_fold)

lemma handle_error_eq:
  "handle_error env e s =
     s\<lparr>timers := (timers s)(env_id env := None),
       callbacks := (callbacks s)(env_id env := None),
       trace := trace s @ [Invoke (env_callback env) [e]]\<rparr>"
  by (simp add: handle_error_def stop_timer_def invoke_def Let_def)

lemma down_fold_trace:
  "trace (foldl (\<lambda>s' env. handle_transport_down env s') s envs) =
     trace s @ map (\<lambda>env. Invoke (env_callback env) [JErr JUndefined ''Server gone. (RT)'']) envs"
  by (induction envs arbitrary: s)
     (simp_all add: handle_transport_down_def handle_error_eq ioerr_def io_get_def io_def)

lemma down_fold_connected:
  "connected (foldl (\<lambda>s' env. handle_transport_down env s') s envs) = connected s"
  by (induction envs arbitrary: s) (simp_all add: handle_transport_down_def handle_error_eq)

lemma down_fold_last_msg_id:
  "last_msg_id (foldl (\<lambda>s' env. handle_transport_down env s') s envs) = last_msg_id s"
  by (induction envs arbitrary: s) (simp_all add: handle_transport_down_def handle_error_eq)

lemma response_handler_connected: "connected (response_handler env msg s) = connected s"
  by (simp add: response_handler_def stop_timer_def emit_eq invoke_def Let_def)

lemma response_handler_last_msg_id: "last_msg_id (response_handler env msg s) = last_msg_id s"
  by (simp add: response_handler_def stop_timer_def emit_eq invoke_def Let_def)

lemma response_handler_callbacks: "callbacks (response_handler env msg s) = callbacks s"
  by (simp add: response_handler_def stop_timer_def emit_eq invoke_def Let_def)

lemma js_succ_below: "n < max_safe \<Longrightarrow> js_succ n = n + 1"
  by (simp add: js_succ_def)

lemma js_succ_max_safe: "js_succ max_safe = max_safe"
  by (simp add: js_succ_def max_safe_def)

lemma apiTree_last_msg_id:
  "last_msg_id (apiTree name params options callback s) = js_succ (last_msg_id s)"
  by (simp add: apiTree_def invoke_def Let_def split: prod.splits)

lemma apiTree_connected:
  "connected (apiTree name params options callback s) = connected s"
  by (simp add: apiTree_def invoke_def Let_def split: prod.splits)

text \<open>A call that passes the connection check, as one update of the state.\<close>

lemma apiTree_connected_eq:
  "connected s \<Longrightarrow>
   apiTree name params options callback s =
     s\<lparr>last_msg_id := js_succ (last_msg_id s),
       down_listeners := down_listeners s @
         [\<lparr>env_id = last_msg_id s, env_name = name,
           env_callback = snd (resolve_args options callback)\<rparr>],
       callbacks := (callbacks s)(last_msg_id s \<mapsto>
         \<lparr>env_id = last_msg_id s, env_name = name,
          env_callback = snd (resolve_args options callback)\<rparr>),
       timers := (timers s)(last_msg_id s \<mapsto>
         \<lparr>env_id = last_msg_id s, env_name = name,
          env_callback = snd (resolve_args options callback)\<rparr>),
       trace := trace s @ [Published (req_channel s)
         \<lparr>req_id = last_msg_id s, req_version = runtime_version s,
          req_method = name, req_params = params\<rparr>],
       publications := (publications s)(last_msg_id s \<mapsto>
         \<lparr>env_id = last_msg_id s, env_name = name,
          env_callback = snd (resolve_args options callback)\<rparr>)\<rparr>"
  by (simp add: apiTree_def Let_def split: prod.splits)

lemma step_last_msg_id:
  "last_msg_id (step e s) = (if is_call e then js_succ (last_msg_id s) else last_msg_id s)"
  by (cases e)
     (simp_all add: apiTree_last_msg_id on_def off_def transport_up_def transport_down_def
        down_fold_last_msg_id on_response_def response_handler_last_msg_id timeout_fn_def
        handle_error_eq stop_timer_def split: option.splits)

lemma step_connected_call: "is_call e \<Longrightarrow> connected (step e s) = connected s"
  by (cases e) (simp_all add: apiTree_connected)

lemma run_Nil: "run [] s = s"
  by (simp add: run_def)

lemma run_Cons: "run (e # es) s = run es (step e s)"
  by (simp add: run_def)

lemma run_append: "run (es @ es') s = run es' (run es s)"
  by (simp add: run_def)

text \<open>The identifiers on the trace: only a call that passes the connection check adds one,
  the value of the counter before the call.\<close>

lemma published_ids_append:
  "published_ids (tr @ tr') = published_ids tr @ published_ids tr'"
  by (induction tr rule: published_ids.induct) simp_all

lemma published_ids_invokes: "published_ids (map (\<lambda>x. Invoke (f x) (g x)) xs) = []"
  by (induction xs) simp_all

lemma down_fold_published:
  "published_ids (trace (foldl (\<lambda>s' env. handle_transport_down env s') s envs)) =
     published_ids (trace s)"
  by (simp add: down_fold_trace published_ids_append published_ids_invokes)

lemma response_handler_published:
  "published_ids (trace (response_handler env msg s)) = published_ids (trace s)"
  by (simp add: response_handler_def stop_timer_def emit_eq invoke_def Let_def
        published_ids_append published_ids_invokes)

lemma apiTree_published:
  "published_ids (trace (apiTree name params options callback s)) =
     published_ids (trace s) @ (if connected s then [last_msg_id s] else [])"
  by (simp add: apiTree_def invoke_def Let_def published_ids_append split: prod.splits)

lemma step_published:
  "published_ids (trace (step e s)) =
     published_ids (trace s) @ (if is_call e \<and> connected s then [last_msg_id s] else [])"
  by (cases e)
     (simp_all add: apiTree_published on_def off_def transport_up_def transport_down_def
        down_fold_published on_response_def response_handler_published timeout_fn_def
        handle_error_eq stop_timer_def published_ids_append split: option.splits)

text \<open>Any events, with at most \<open>max_safe\<close> calls in all: the counter counts the calls, and the
  identifiers that come onto the trace are increasing and lie between the old and the new
  value of the counter.\<close>

lemma run_ids:
  "last_msg_id s + length (filter is_call evs) \<le> max_safe \<Longrightarrow>
   last_msg_id (run evs s) = last_msg_id s + length (filter is_call evs) \<and>
   (\<exists>ids. published_ids (trace (run evs s)) = published_ids (trace s) @ ids \<and>
      sorted_wrt (<) ids \<and>
      (\<forall>i \<in> set ids. last_msg_id s \<le> i \<and> i < last_msg_id s + length (filter is_call evs)))"
proof (induction evs arbitrary: s)
  case Nil
  show ?case by (simp add: run_Nil)
next
  case (Cons e es)
  show ?case
  proof (cases "is_call e")
    case True
    from Cons.prems True have below: "last_msg_id s < max_safe"
      by simp
    with True have next_id: "last_msg_id (step e s) = last_msg_id s + 1"
      by (simp add: step_last_msg_id js_succ_below)
    with Cons.prems True
    have "last_msg_id (step e s) + length (filter is_call es) \<le> max_safe"
      by simp
    from Cons.IH [OF this] obtain ids where
      cnt: "last_msg_id (run es (step e s)) =
              last_msg_id (step e s) + length (filter is_call es)"
      and pub: "published_ids (trace (run es (step e s))) =
              published_ids (trace (step e s)) @ ids"
      and srt: "sorted_wrt (<) ids"
      and rng: "\<forall>i \<in> set ids. last_msg_id (step e s) \<le> i \<and>
              i < last_msg_id (step e s) + length (filter is_call es)"
      by blast
    let ?new = "if connected s then [last_msg_id s] else []"
    from pub True have "published_ids (trace (run (e # es) s)) =
        published_ids (trace s) @ (?new @ ids)"
      by (simp add: run_Cons step_published)
    moreover from srt rng next_id have "sorted_wrt (<) (?new @ ids)"
      by (auto simp: sorted_wrt_append)
    moreover from rng next_id True
    have "\<forall>i \<in> set (?new @ ids). last_msg_id s \<le> i \<and>
        i < last_msg_id s + length (filter is_call (e # es))"
      by auto
    moreover from cnt next_id True
    have "last_msg_id (run (e # es) s) = last_msg_id s + length (filter is_call (e # es))"
      by (simp add: run_Cons)
    ultimately show ?thesis
      by blast
  next
    case False
    then have same: "last_msg_id (step e s) = last_msg_id s"
      by (simp add: step_last_msg_id)
    with Cons.prems False
    have "last_msg_id (step e s) + length (filter is_call es) \<le> max_safe"
      by simp
    from Cons.IH [OF this] False same show ?thesis
      by (simp add: run_Cons step_published)
  qed
qed

text \<open>Calls one after the other while connected, at most up to \<open>max_safe\<close>: their envelopes
  carry the successive values of the counter.\<close>

lemma run_calls:
  "connected s \<Longrightarrow> list_all is_call evs \<Longrightarrow> last_msg_id s + length evs \<le> max_safe \<Longrightarrow>
   published_ids (trace (run evs s)) =
     published_ids (trace s) @ [last_msg_id s ..< last_msg_id s + length evs] \<and>
   connected (run evs s) \<and>
   last_msg_id (run evs s) = last_msg_id s + length evs"
proof (induction evs arbitrary: s)
  case Nil
  then show ?case by (simp add: run_Nil)
next
  case (Cons e es)
  from Cons.prems have call: "is_call e" and calls: "list_all is_call es"
    and below: "last_msg_id s < max_safe"
    by simp_all
  from call below have next_id: "last_msg_id (step e s) = last_msg_id s + 1"
    by (simp add: step_last_msg_id js_succ_below)
  from call Cons.prems have conn: "connected (step e s)"
    by (simp add: step_connected_call)
  from next_id Cons.prems have "last_msg_id (step e s) + length es \<le> max_safe"
    by simp
  note ih = Cons.IH [OF conn calls this]
  have "[n ..< n + Suc m] = n # [Suc n ..< Suc n + m]" for n m :: nat
    by (simp add: upt_conv_Cons)
  with ih next_id call Cons.prems(1) show ?case
    by (simp add: run_Cons step_published)
qed

subsection \<open>The timer and the acknowledgement of the publish\<close>

text \<open>
  C1, as the code has it. The timer waits for the delivery of the request: \<^verbatim>\<open>stop_timer\<close> is
  the success callback of the publication (line 250). Let \<open>s1\<close> be the state after a call
  issued while connected, and \<open>k\<close> its identifier. The acknowledgement of the publish calls
  nothing and stops the timer: when the 30 seconds have passed after it, nothing happens.
  When they pass with the timer still pending, the caller's callback is called once, with an
  \<^verbatim>\<open>IO_ETIMEOUT\<close> error. The last three conjuncts say the same of any state \<open>t\<close> and any
  identifier \<open>j\<close>, so also when other events came in between.
\<close>

theorem publish_done_stops_timer:
  assumes "connected s"
    and "s1 = apiTree name params options callback s"
    and "k = last_msg_id s"
  shows "trace (step (PublishDone k) s1) = trace s1 \<and>
         timers (step (PublishDone k) s1) k = None \<and>
         step (TimerElapsed k) (step (PublishDone k) s1) = step (PublishDone k) s1 \<and>
         trace (step (TimerElapsed k) s1) =
           trace s1 @ [Invoke (snd (resolve_args options callback))
             [JErr (JStr ''IO_ETIMEOUT'') (''Timeout '' @ name @ '' execution.'')]] \<and>
         (publications t j = Some env \<longrightarrow>
            timers (step (PublishDone j) t) (env_id env) = None \<and>
            trace (step (PublishDone j) t) = trace t) \<and>
         (timers t j = None \<longrightarrow> step (TimerElapsed j) t = t) \<and>
         (timers t j = Some env \<longrightarrow>
            timers (step (TimerElapsed j) t) j = None \<and>
            trace (step (TimerElapsed j) t) =
              trace t @ [Invoke (env_callback env)
                [JErr (JStr ''IO_ETIMEOUT'') (''Timeout '' @ env_name env @ '' execution.'')]])"
proof -
  have s1: "s1 = s\<lparr>last_msg_id := js_succ k,
       down_listeners := down_listeners s @
         [\<lparr>env_id = k, env_name = name, env_callback = snd (resolve_args options callback)\<rparr>],
       callbacks := (callbacks s)(k \<mapsto>
         \<lparr>env_id = k, env_name = name, env_callback = snd (resolve_args options callback)\<rparr>),
       timers := (timers s)(k \<mapsto>
         \<lparr>env_id = k, env_name = name, env_callback = snd (resolve_args options callback)\<rparr>),
       trace := trace s @ [Published (req_channel s)
         \<lparr>req_id = k, req_version = runtime_version s,
          req_method = name, req_params = params\<rparr>],
       publications := (publications s)(k \<mapsto>
         \<lparr>env_id = k, env_name = name, env_callback = snd (resolve_args options callback)\<rparr>)\<rparr>"
    using assms by (simp add: apiTree_connected_eq)
  have a: "trace (step (PublishDone k) s1) = trace s1"
    and b: "timers (step (PublishDone k) s1) k = None"
    by (simp_all add: s1 stop_timer_def)
  from b have c: "step (TimerElapsed k) (step (PublishDone k) s1) = step (PublishDone k) s1"
    by simp
  have d: "trace (step (TimerElapsed k) s1) =
           trace s1 @ [Invoke (snd (resolve_args options callback))
             [JErr (JStr ''IO_ETIMEOUT'') (''Timeout '' @ name @ '' execution.'')]]"
    by (simp add: s1 timeout_fn_def handle_error_eq ioerr_def io_get_def io_def)
  have e: "publications t j = Some env \<longrightarrow>
            timers (step (PublishDone j) t) (env_id env) = None \<and>
            trace (step (PublishDone j) t) = trace t"
    by (simp add: stop_timer_def)
  have f: "timers t j = None \<longrightarrow> step (TimerElapsed j) t = t"
    by simp
  have g: "timers t j = Some env \<longrightarrow>
            timers (step (TimerElapsed j) t) j = None \<and>
            trace (step (TimerElapsed j) t) =
              trace t @ [Invoke (env_callback env)
                [JErr (JStr ''IO_ETIMEOUT'') (''Timeout '' @ env_name env @ '' execution.'')]]"
    by (simp add: timeout_fn_def handle_error_eq ioerr_def io_get_def io_def)
  from a b c d e f g show ?thesis by blast
qed

text \<open>
  C1, witness: the first call after the transport came up. Its timer fires with the
  timeout error; after the acknowledgement of its publish the timer is gone and the 30
  seconds pass without effect.
\<close>

theorem publish_done_stops_timer_witness:
  "connected (transport_up (init ''r'' ''v'')) \<and>
   trace (step (TimerElapsed 0)
           (apiTree ''m'' JNull JUndefined (Some (UserFn 1)) (transport_up (init ''r'' ''v'')))) =
     trace (apiTree ''m'' JNull JUndefined (Some (UserFn 1)) (transport_up (init ''r'' ''v''))) @
       [Invoke (UserFn 1) [JErr (JStr ''IO_ETIMEOUT'') ''Timeout m execution.'']] \<and>
   timers (apiTree ''m'' JNull JUndefined (Some (UserFn 1)) (transport_up (init ''r'' ''v''))) 0 =
     Some \<lparr>env_id = 0, env_name = ''m'', env_callback = UserFn 1\<rparr> \<and>
   timers (step (TimerElapsed 0)
           (apiTree ''m'' JNull JUndefined (Some (UserFn 1)) (transport_up (init ''r'' ''v'')))) 0 =
     None \<and>
   step (TimerElapsed 0) (step (PublishDone 0)
           (apiTree ''m'' JNull JUndefined (Some (UserFn 1)) (transport_up (init ''r'' ''v'')))) =
     step (PublishDone 0)
           (apiTree ''m'' JNull JUndefined (Some (UserFn 1)) (transport_up (init ''r'' ''v'')))"
proof -
  let ?s = "transport_up (init ''r'' ''v'')"
  let ?s1 = "apiTree ''m'' JNull JUndefined (Some (UserFn 1)) ?s"
  let ?env = "\<lparr>env_id = 0, env_name = ''m'', env_callback = UserFn 1\<rparr>"
  have c: "connected ?s"
    by (simp add: transport_up_def init_def)
  have l: "0 = last_msg_id ?s"
    by (simp add: transport_up_def init_def)
  have r: "snd (resolve_args JUndefined (Some (UserFn 1))) = UserFn 1"
    by (simp add: resolve_args_def)
  have tm: "timers ?s1 0 = Some ?env"
    by (simp add: apiTree_def transport_up_def init_def resolve_args_def Let_def)
  note th = publish_done_stops_timer [OF c refl l, of "''m''" JNull JUndefined "Some (UserFn 1)"
      ?s1 0 ?env, unfolded r]
  from th have fire: "trace (step (TimerElapsed 0) ?s1) =
      trace ?s1 @ [Invoke (UserFn 1) [JErr (JStr ''IO_ETIMEOUT'') (''Timeout '' @ ''m'' @ '' execution.'')]]"
    and ack: "step (TimerElapsed 0) (step (PublishDone 0) ?s1) = step (PublishDone 0) ?s1"
    by blast+
  from th tm have gone: "timers (step (TimerElapsed 0) ?s1) 0 = None"
    by blast
  from c fire tm gone ack show ?thesis
    by simp
qed

text \<open>
  C1 as written fails: a call is issued while connected, its publish is acknowledged, no
  response arrives, and 30 seconds pass. The callback \<open>UserFn 1\<close> is never called: the
  trace holds the published request and nothing else.
\<close>

theorem timeout_after_publish_done_counterexample:
  "connected (run [TransportUp] (init ''r'' ''v'')) \<and>
   trace (run [TransportUp, ApiTree ''m'' JNull JUndefined (Some (UserFn 1)),
               PublishDone 0, TimerElapsed 0] (init ''r'' ''v'')) =
     [Published ''/x/api3-req/r''
        \<lparr>req_id = 0, req_version = ''v'', req_method = ''m'', req_params = JNull\<rparr>]"
  by (simp add: run_defs)

subsection \<open>Settlement by the error paths\<close>

text \<open>
  C2, the code at the failing inputs. \<^verbatim>\<open>handle_error\<close> clears the timer, removes the
  registry entry and calls the callback, and leaves the listeners of \<^verbatim>\<open>transport:down\<close> as
  they are: after a call settled by its timer, by the loss of the transport or by the
  failure of its publish, the call's \<^verbatim>\<open>handle_transport_down\<close> is still bound. Only the
  response path (last conjunct) unbinds it.
\<close>

theorem handle_error_keeps_down_listener:
  "down_listeners (handle_error env e s) = down_listeners s \<and>
   down_listeners (run [TransportUp, ApiTree ''m'' JNull JUndefined (Some (UserFn 1)),
                        TimerElapsed 0] (init ''r'' ''v'')) =
     [\<lparr>env_id = 0, env_name = ''m'', env_callback = UserFn 1\<rparr>] \<and>
   down_listeners (run [TransportUp, ApiTree ''m'' JNull JUndefined (Some (UserFn 1)),
                        TransportDown] (init ''r'' ''v'')) =
     [\<lparr>env_id = 0, env_name = ''m'', env_callback = UserFn 1\<rparr>] \<and>
   down_listeners (run [TransportUp, ApiTree ''m'' JNull JUndefined (Some (UserFn 1)),
                        PublishFail 0 (JStr ''rejected'')] (init ''r'' ''v'')) =
     [\<lparr>env_id = 0, env_name = ''m'', env_callback = UserFn 1\<rparr>] \<and>
   down_listeners (run [TransportUp, ApiTree ''m'' JNull JUndefined (Some (UserFn 1)),
                        Response \<lparr>data_id = 0, data_msg =
                          \<lparr>version = ''v'', err = JNull, result = JStr ''ok''\<rparr>\<rparr>]
                     (init ''r'' ''v'')) = []"
  by (simp add: run_defs)

text \<open>
  C3, the code at the failing inputs. One call, whose callback is \<open>UserFn 1\<close>. In the first
  run its timer fires and the transport goes down afterwards; in the second the transport
  goes down, comes up and goes down again. Either way the callback is called twice.
\<close>

theorem callback_invoked_twice:
  "trace (run [TransportUp, ApiTree ''m'' JNull JUndefined (Some (UserFn 1)),
               TimerElapsed 0, TransportDown] (init ''r'' ''v'')) =
     [Published ''/x/api3-req/r''
        \<lparr>req_id = 0, req_version = ''v'', req_method = ''m'', req_params = JNull\<rparr>,
      Invoke (UserFn 1) [JErr (JStr ''IO_ETIMEOUT'') ''Timeout m execution.''],
      Invoke (UserFn 1) [JErr JUndefined ''Server gone. (RT)'']] \<and>
   trace (run [TransportUp, ApiTree ''m'' JNull JUndefined (Some (UserFn 1)),
               TransportDown, TransportUp, TransportDown] (init ''r'' ''v'')) =
     [Published ''/x/api3-req/r''
        \<lparr>req_id = 0, req_version = ''v'', req_method = ''m'', req_params = JNull\<rparr>,
      Invoke (UserFn 1) [JErr JUndefined ''Server gone. (RT)''],
      Invoke (UserFn 1) [JErr JUndefined ''Server gone. (RT)'']]"
  by (simp add: run_defs)

subsection \<open>A call without a connection\<close>

text \<open>
  C4, as the code has it. A call issued while the connection flag is false calls the
  callback at once with an \<^verbatim>\<open>IO_ENOCONN\<close> error and leaves the registry, the timers, the
  listeners and the publications as they are. The identifier is taken before the flag is
  read (line 164), so the counter has moved on afterwards: it is one higher, as long as it
  was below \<open>max_safe\<close>.
\<close>

theorem apiTree_not_connected:
  "\<not> connected s \<Longrightarrow>
   apiTree name params options callback s =
     s\<lparr>last_msg_id := js_succ (last_msg_id s),
       trace := trace s @ [Invoke (snd (resolve_args options callback))
                  [JErr (JStr ''IO_ENOCONN'') ''Cannot connect to server (RT).'']]\<rparr> \<and>
   (last_msg_id s < max_safe \<longrightarrow>
      last_msg_id (apiTree name params options callback s) = last_msg_id s + 1)"
  by (simp add: apiTree_def invoke_def ioerr_def io_get_def io_def js_succ_below Let_def
        split: prod.splits)

text \<open>C4, witness: a call before the transport has come up.\<close>

theorem apiTree_not_connected_witness:
  "\<not> connected (init ''r'' ''v'') \<and>
   last_msg_id (init ''r'' ''v'') < max_safe \<and>
   last_msg_id (apiTree ''m'' JNull JUndefined (Some (UserFn 1)) (init ''r'' ''v'')) =
     last_msg_id (init ''r'' ''v'') + 1 \<and>
   apiTree ''m'' JNull JUndefined (Some (UserFn 1)) (init ''r'' ''v'') =
     (init ''r'' ''v'')\<lparr>last_msg_id := 1,
       trace := [Invoke (UserFn 1) [JErr (JStr ''IO_ENOCONN'') ''Cannot connect to server (RT).'']]\<rparr>"
proof -
  have c: "\<not> connected (init ''r'' ''v'')"
    by (simp add: init_def)
  have l: "last_msg_id (init ''r'' ''v'') < max_safe"
    by (simp add: init_def max_safe_def)
  have j: "js_succ (last_msg_id (init ''r'' ''v'')) = 1"
    using l by (simp add: js_succ_below) (simp add: init_def)
  note th = apiTree_not_connected [OF c, of "''m''" JNull JUndefined "Some (UserFn 1)"]
  from th l have "last_msg_id (apiTree ''m'' JNull JUndefined (Some (UserFn 1)) (init ''r'' ''v'')) =
     last_msg_id (init ''r'' ''v'') + 1"
    by blast
  moreover from th have "apiTree ''m'' JNull JUndefined (Some (UserFn 1)) (init ''r'' ''v'') =
     (init ''r'' ''v'')\<lparr>last_msg_id := 1,
       trace := [Invoke (UserFn 1) [JErr (JStr ''IO_ENOCONN'') ''Cannot connect to server (RT).'']]\<rparr>"
    by (simp add: j) (simp add: resolve_args_def init_def)
  ultimately show ?thesis
    using c l by blast
qed

text \<open>
  C4 as written fails: the call is issued while the flag is false, and the identifier
  counter goes from 0 to 1.
\<close>

theorem apiTree_not_connected_counterexample:
  "\<not> connected (init ''r'' ''v'') \<and>
   last_msg_id (init ''r'' ''v'') = 0 \<and>
   last_msg_id (apiTree ''m'' JNull JUndefined (Some (UserFn 1)) (init ''r'' ''v'')) = 1"
  by (simp add: apiTree_def init_def invoke_def js_succ_def max_safe_def Let_def
        split: prod.splits)

subsection \<open>A response of another version\<close>

text \<open>
  C5, the code at the failing input. The client's version is \<open>''A''\<close>, the handler \<open>UserFn 7\<close>
  is registered for \<^verbatim>\<open>api3:version-mismatch\<close>, a call is issued and the response carries the
  version \<open>''B''\<close>. The callback \<open>UserFn 1\<close> is called with an \<^verbatim>\<open>IO_EWRONGVER\<close> error and no
  result, and the handler is called once, with no argument: \<^verbatim>\<open>emit\<close> gives the object
  \<^verbatim>\<open>{client, server}\<close> to \<^verbatim>\<open>apply\<close> as the argument list, not as its one element.
\<close>

theorem version_mismatch_handler_arguments:
  "trace (run [TransportUp, On ''api3:version-mismatch'' (UserFn 7),
               ApiTree ''m'' JNull JUndefined (Some (UserFn 1)),
               Response \<lparr>data_id = 0, data_msg =
                 \<lparr>version = ''B'', err = JNull, result = JStr ''x''\<rparr>\<rparr>] (init ''r'' ''A'')) =
     [Published ''/x/api3-req/r''
        \<lparr>req_id = 0, req_version = ''A'', req_method = ''m'', req_params = JNull\<rparr>,
      Invoke (UserFn 7) [],
      Invoke (UserFn 1) [JErr (JStr ''IO_EWRONGVER'') ''Client version does not match server.'']]"
  by (simp add: run_defs)

subsection \<open>The dispatcher of responses\<close>

text \<open>
  C6. For an envelope \<open>d\<close> arriving on the response channel: with no registry entry under
  its identifier the state stays as it is (no function is called); with an entry \<open>env\<close>, the
  response handler of that call runs on the message, in the state where the entry is
  already removed. Afterwards there is no entry under the identifier, and a second envelope
  \<open>d'\<close> with the same identifier changes nothing.
\<close>

theorem on_response_dispatch:
  "(callbacks s (data_id d) = None \<longrightarrow> on_response d s = s) \<and>
   (callbacks s (data_id d) = Some env \<longrightarrow>
      on_response d s =
        response_handler env (data_msg d) (s\<lparr>callbacks := (callbacks s)(data_id d := None)\<rparr>)) \<and>
   callbacks (on_response d s) (data_id d) = None \<and>
   (data_id d' = data_id d \<longrightarrow> on_response d' (on_response d s) = on_response d s)"
proof -
  have gone: "callbacks (on_response d s) (data_id d) = None"
    by (simp add: on_response_def response_handler_callbacks split: option.splits)
  have "on_response d' (on_response d s) = on_response d s" if "data_id d' = data_id d"
    using gone that by (simp add: on_response_def [of d'])
  with gone show ?thesis
    by (simp add: on_response_def)
qed

text \<open>
  C6, witness: a response with identifier 0 before any call (no entry), and two such
  responses after the first call.
\<close>

theorem on_response_dispatch_witness:
  "callbacks (init ''r'' ''v'') 0 = None \<and>
   on_response \<lparr>data_id = 0, data_msg = \<lparr>version = ''v'', err = JNull, result = JStr ''ok''\<rparr>\<rparr>
     (init ''r'' ''v'') = init ''r'' ''v'' \<and>
   callbacks (apiTree ''m'' JNull JUndefined (Some (UserFn 1)) (transport_up (init ''r'' ''v''))) 0 =
     Some \<lparr>env_id = 0, env_name = ''m'', env_callback = UserFn 1\<rparr> \<and>
   trace (on_response
       \<lparr>data_id = 0, data_msg = \<lparr>version = ''v'', err = JNull, result = JStr ''ok''\<rparr>\<rparr>
       (apiTree ''m'' JNull JUndefined (Some (UserFn 1)) (transport_up (init ''r'' ''v'')))) =
     [Published ''/x/api3-req/r''
        \<lparr>req_id = 0, req_version = ''v'', req_method = ''m'', req_params = JNull\<rparr>,
      Invoke (UserFn 1) [JNull, JStr ''ok'']] \<and>
   on_response \<lparr>data_id = 0, data_msg = \<lparr>version = ''v'', err = JNull, result = JStr ''ok''\<rparr>\<rparr>
     (on_response \<lparr>data_id = 0, data_msg = \<lparr>version = ''v'', err = JNull, result = JStr ''ok''\<rparr>\<rparr>
       (apiTree ''m'' JNull JUndefined (Some (UserFn 1)) (transport_up (init ''r'' ''v'')))) =
   on_response \<lparr>data_id = 0, data_msg = \<lparr>version = ''v'', err = JNull, result = JStr ''ok''\<rparr>\<rparr>
     (apiTree ''m'' JNull JUndefined (Some (UserFn 1)) (transport_up (init ''r'' ''v'')))"
proof -
  let ?d = "\<lparr>data_id = 0, data_msg = \<lparr>version = ''v'', err = JNull, result = JStr ''ok''\<rparr>\<rparr>"
  let ?s = "apiTree ''m'' JNull JUndefined (Some (UserFn 1)) (transport_up (init ''r'' ''v''))"
  let ?env = "\<lparr>env_id = 0, env_name = ''m'', env_callback = UserFn 1\<rparr>"
  have n: "callbacks (init ''r'' ''v'') (data_id ?d) = None"
    by (simp add: init_def)
  have e: "callbacks ?s (data_id ?d) = Some ?env"
    by (simp add: apiTree_def transport_up_def init_def resolve_args_def Let_def)
  have i: "data_id ?d = data_id ?d"
    by simp
  from on_response_dispatch [of "init ''r'' ''v''" ?d] n
  have a: "on_response ?d (init ''r'' ''v'') = init ''r'' ''v''"
    by blast
  from on_response_dispatch [of ?s ?d ?env] e
  have "on_response ?d ?s =
      response_handler ?env (data_msg ?d) (?s\<lparr>callbacks := (callbacks ?s)(data_id ?d := None)\<rparr>)"
    by blast
  then have h: "trace (on_response ?d ?s) =
     [Published ''/x/api3-req/r''
        \<lparr>req_id = 0, req_version = ''v'', req_method = ''m'', req_params = JNull\<rparr>,
      Invoke (UserFn 1) [JNull, JStr ''ok'']]"
    by (simp add: run_defs)
  from on_response_dispatch [of ?s ?d _ ?d] i
  have b: "on_response ?d (on_response ?d ?s) = on_response ?d ?s"
    by blast
  from n a e h b show ?thesis
    by simp
qed

subsection \<open>Identifiers\<close>

text \<open>
  C7, as the code has it. The counter starts at 0 and a call of \<^verbatim>\<open>apiTree\<close> moves it from
  \<open>n\<close> to \<open>js_succ n\<close>, which is \<open>n + 1\<close> below \<open>max_safe\<close>. A call that passes the connection
  check puts the value the counter had into the envelope it publishes, and registers its
  response handler under that value. For any events \<open>evs\<close> from the initial state with at
  most \<open>max_safe\<close> calls among them: the counter ends as the number of calls, and the
  identifiers of the published envelopes are strictly increasing, so no two are equal; when
  \<open>evs\<close> are calls only, issued after the transport came up, the identifiers are
  \<open>0, 1, ..., length evs - 1\<close>.
\<close>

theorem request_ids_increasing:
  assumes "length (filter is_call evs) \<le> max_safe"
  shows "last_msg_id (init realtime_id ver) = 0 \<and>
         last_msg_id (apiTree name params options callback s) = js_succ (last_msg_id s) \<and>
         (last_msg_id s < max_safe \<longrightarrow> js_succ (last_msg_id s) = last_msg_id s + 1) \<and>
         (connected s \<longrightarrow>
            trace (apiTree name params options callback s) =
              trace s @ [Published (req_channel s)
                \<lparr>req_id = last_msg_id s, req_version = runtime_version s,
                 req_method = name, req_params = params\<rparr>] \<and>
            callbacks (apiTree name params options callback s) =
              (callbacks s)(last_msg_id s \<mapsto>
                \<lparr>env_id = last_msg_id s, env_name = name,
                 env_callback = snd (resolve_args options callback)\<rparr>)) \<and>
         last_msg_id (run evs (init realtime_id ver)) = length (filter is_call evs) \<and>
         sorted_wrt (<) (published_ids (trace (run evs (init realtime_id ver)))) \<and>
         distinct (published_ids (trace (run evs (init realtime_id ver)))) \<and>
         (list_all is_call evs \<longrightarrow>
            published_ids (trace (run (TransportUp # evs) (init realtime_id ver))) =
              [0 ..< length evs])"
proof -
  let ?s0 = "init realtime_id ver"
  have zero: "last_msg_id ?s0 = 0" and empty: "published_ids (trace ?s0) = []"
    by (simp_all add: init_def)
  have one: "connected s \<longrightarrow>
            trace (apiTree name params options callback s) =
              trace s @ [Published (req_channel s)
                \<lparr>req_id = last_msg_id s, req_version = runtime_version s,
                 req_method = name, req_params = params\<rparr>] \<and>
            callbacks (apiTree name params options callback s) =
              (callbacks s)(last_msg_id s \<mapsto>
                \<lparr>env_id = last_msg_id s, env_name = name,
                 env_callback = snd (resolve_args options callback)\<rparr>)"
    by (simp add: apiTree_connected_eq)
  from assms zero have "last_msg_id ?s0 + length (filter is_call evs) \<le> max_safe"
    by simp
  from run_ids [OF this] zero empty obtain ids where
    cnt: "last_msg_id (run evs ?s0) = length (filter is_call evs)"
    and pub: "published_ids (trace (run evs ?s0)) = ids"
    and srt: "sorted_wrt (<) ids"
    by auto
  from srt have "distinct ids"
    by (simp add: strict_sorted_iff)
  have calls: "published_ids (trace (run (TransportUp # evs) ?s0)) = [0 ..< length evs]"
    if all: "list_all is_call evs"
  proof -
    from all have "filter is_call evs = evs"
      by (simp add: list_all_iff)
    with assms have len: "length evs \<le> max_safe"
      by simp
    have up: "connected (step TransportUp ?s0)"
      and l: "last_msg_id (step TransportUp ?s0) = 0"
      and e: "published_ids (trace (step TransportUp ?s0)) = []"
      by (simp_all add: transport_up_def init_def)
    from len l have "last_msg_id (step TransportUp ?s0) + length evs \<le> max_safe"
      by simp
    from run_calls [OF up all this] l e show ?thesis
      by (simp add: run_Cons)
  qed
  from zero one cnt pub srt \<open>distinct ids\<close> calls show ?thesis
    by (simp add: apiTree_last_msg_id js_succ_below)
qed

text \<open>
  C7, witness: the transport comes up and two calls follow, one with a callback and one
  without. Their envelopes carry the identifiers 0 and 1, and the counter is 2.
\<close>

theorem request_ids_increasing_witness:
  "length (filter is_call [ApiTree ''m'' JNull JUndefined (Some (UserFn 1)),
                           ApiTree ''n'' JNull JUndefined None]) \<le> max_safe \<and>
   list_all is_call [ApiTree ''m'' JNull JUndefined (Some (UserFn 1)),
                     ApiTree ''n'' JNull JUndefined None] \<and>
   published_ids (trace (run [TransportUp, ApiTree ''m'' JNull JUndefined (Some (UserFn 1)),
                              ApiTree ''n'' JNull JUndefined None] (init ''r'' ''v''))) = [0, 1] \<and>
   last_msg_id (run [ApiTree ''m'' JNull JUndefined (Some (UserFn 1)),
                     ApiTree ''n'' JNull JUndefined None] (init ''r'' ''v'')) = 2"
proof -
  let ?evs = "[ApiTree ''m'' JNull JUndefined (Some (UserFn 1)),
               ApiTree ''n'' JNull JUndefined None]"
  have n: "length (filter is_call ?evs) \<le> max_safe"
    by (simp add: max_safe_def)
  have a: "list_all is_call ?evs"
    by simp
  note th = request_ids_increasing [OF n, of "''r''" "''v''"]
  from th a have "published_ids (trace (run (TransportUp # ?evs) (init ''r'' ''v''))) =
      [0 ..< length ?evs]"
    by blast
  then have p: "published_ids (trace (run (TransportUp # ?evs) (init ''r'' ''v''))) = [0, 1]"
    by (simp add: upt_rec)
  from th have "last_msg_id (run ?evs (init ''r'' ''v'')) = length (filter is_call ?evs)"
    by blast
  then have c: "last_msg_id (run ?evs (init ''r'' ''v'')) = 2"
    by simp
  from n a p c show ?thesis
    by blast
qed

text \<open>
  C7 as written fails: the transport comes up and \<open>max_safe + 2\<close> calls follow. The envelopes
  of the last two both carry the identifier \<open>max_safe\<close>: the counter has stopped there.
\<close>

theorem request_ids_reused_counterexample:
  "published_ids (trace (run (TransportUp #
       replicate (max_safe + 2) (ApiTree ''m'' JNull JUndefined None)) (init ''r'' ''v''))) =
     [0 ..< max_safe] @ [max_safe, max_safe] \<and>
   \<not> distinct (published_ids (trace (run (TransportUp #
       replicate (max_safe + 2) (ApiTree ''m'' JNull JUndefined None)) (init ''r'' ''v''))))"
proof -
  let ?c = "ApiTree ''m'' JNull JUndefined None"
  let ?s0 = "step TransportUp (init ''r'' ''v'')"
  let ?s1 = "run (replicate max_safe ?c) ?s0"
  let ?s2 = "step ?c ?s1"
  have up: "connected ?s0" and l: "last_msg_id ?s0 = 0"
    and e: "published_ids (trace ?s0) = []"
    by (simp_all add: transport_up_def init_def)
  have all: "list_all is_call (replicate max_safe ?c)"
    by (simp add: list_all_iff)
  from l have "last_msg_id ?s0 + length (replicate max_safe ?c) \<le> max_safe"
    by simp
  from run_calls [OF up all this] l e
  have p1: "published_ids (trace ?s1) = [0 ..< max_safe]"
    and c1: "connected ?s1" and l1: "last_msg_id ?s1 = max_safe"
    by simp_all
  from p1 c1 l1 have p2: "published_ids (trace ?s2) = [0 ..< max_safe] @ [max_safe]"
    by (simp add: apiTree_published)
  from c1 have c2: "connected ?s2"
    by (simp add: apiTree_connected)
  from l1 have l2: "last_msg_id ?s2 = max_safe"
    by (simp add: apiTree_last_msg_id js_succ_max_safe)
  from p2 c2 l2
  have p3: "published_ids (trace (step ?c ?s2)) = [0 ..< max_safe] @ [max_safe, max_safe]"
    by (simp add: apiTree_published)
  have two: "replicate 2 ?c = [?c, ?c]"
    by (simp add: numeral_2_eq_2)
  have "replicate (max_safe + 2) ?c = replicate max_safe ?c @ replicate 2 ?c"
    by (rule replicate_add)
  with two have "replicate (max_safe + 2) ?c = replicate max_safe ?c @ [?c, ?c]"
    by (simp only:)
  then have "run (TransportUp # replicate (max_safe + 2) ?c) (init ''r'' ''v'') = step ?c ?s2"
    by (simp only: run_Cons run_append run_Nil)
  with p3 show ?thesis
    by simp
qed

subsection \<open>The error of a lost transport\<close>

text \<open>
  C8. \<^verbatim>\<open>io.ECONNGONE\<close> is never assigned: the three codes that are have string values, and
  the error that \<^verbatim>\<open>handle_transport_down\<close> gives to the callback has the code \<^verbatim>\<open>undefined\<close>.
  When the transport goes down, every call whose listener is bound gets that error.
\<close>

theorem transport_down_error_code:
  "map_of io ''ECONNGONE'' = None \<and>
   io_get ''ECONNGONE'' = JUndefined \<and>
   io_get ''ENOCONN'' = JStr ''IO_ENOCONN'' \<and>
   io_get ''ETIMEOUT'' = JStr ''IO_ETIMEOUT'' \<and>
   io_get ''EWRONGVER'' = JStr ''IO_EWRONGVER'' \<and>
   trace (handle_transport_down env s) =
     trace s @ [Invoke (env_callback env) [JErr JUndefined ''Server gone. (RT)'']] \<and>
   trace (step TransportDown s) =
     trace s @ map (\<lambda>env. Invoke (env_callback env) [JErr JUndefined ''Server gone. (RT)''])
                 (down_listeners s)"
proof -
  have "trace (handle_transport_down env s) =
     trace s @ [Invoke (env_callback env) [JErr JUndefined ''Server gone. (RT)'']]"
    by (simp add: io_get_def io_def handle_transport_down_def handle_error_eq ioerr_def)
  moreover have "trace (step TransportDown s) =
     trace s @ map (\<lambda>env. Invoke (env_callback env) [JErr JUndefined ''Server gone. (RT)''])
                 (down_listeners s)"
    by (simp add: down_fold_trace transport_down_def)
  ultimately show ?thesis
    by (simp add: io_get_def io_def)
qed

subsection \<open>The connection flag\<close>

text \<open>
  C9. The flag is false initially. The two listeners of \<^verbatim>\<open>io.init\<close> set it and change
  nothing else, and \<^verbatim>\<open>transport:up\<close> has no other listener. A call of \<^verbatim>\<open>apiTree\<close> leaves the
  flag as it is. After any step the flag is true if the step is \<open>TransportUp\<close>, false if it
  is \<open>TransportDown\<close>, and what it was before otherwise.
\<close>

theorem connected_flag:
  "connected (init realtime_id ver) = False \<and>
   transport_up s = s\<lparr>connected := True\<rparr> \<and>
   transport_down s = s\<lparr>connected := False\<rparr> \<and>
   step TransportUp s = s\<lparr>connected := True\<rparr> \<and>
   connected (apiTree name params options callback s) = connected s \<and>
   connected (step e s) =
     (case e of TransportUp \<Rightarrow> True | TransportDown \<Rightarrow> False | _ \<Rightarrow> connected s)"
  by (cases e)
     (simp_all add: init_def apiTree_connected on_def off_def transport_up_def transport_down_def
        down_fold_connected on_response_def response_handler_connected timeout_fn_def
        handle_error_eq stop_timer_def split: option.splits if_splits)

subsection \<open>The optional arguments\<close>

text \<open>
  C10. When the third argument is a function \<open>f\<close>, the call is the call with the empty
  object as options and \<open>f\<close> as callback, whatever the fourth argument is. Options left out
  are the empty object. When the third argument is not a function and the callback is
  left out, the callback is \<^verbatim>\<open>$.noop\<close> and the call is the call with \<^verbatim>\<open>$.noop\<close> passed.
\<close>

theorem apiTree_optional_arguments:
  "resolve_args (JFun f) callback = (JObj [], f) \<and>
   apiTree name params (JFun f) callback s = apiTree name params (JObj []) (Some f) s \<and>
   resolve_args JUndefined callback = (JObj [], case callback of None \<Rightarrow> Noop | Some g \<Rightarrow> g) \<and>
   (\<not> isFunction options \<longrightarrow>
      snd (resolve_args options None) = Noop \<and>
      apiTree name params options None s = apiTree name params options (Some Noop) s)"
  apply (simp add: resolve_args_def apiTree_def Let_def)
  apply (cases options; simp)
  done

text \<open>C10, witness: a call with an options object and no callback.\<close>

theorem apiTree_optional_arguments_witness:
  "\<not> isFunction (JObj []) \<and>
   snd (resolve_args (JObj []) None) = Noop \<and>
   apiTree ''m'' JNull (JObj []) None (init ''r'' ''v'') =
     apiTree ''m'' JNull (JObj []) (Some Noop) (init ''r'' ''v'')"
  using apiTree_optional_arguments [of "UserFn 1" None "''m''" JNull "init ''r'' ''v''" "JObj []"]
  by simp

end
